theory Spec2Isabelle
  imports Main "HOL-Library.AList"
begin

section \<open>Values, objects and the heap\<close>

text \<open>
  The embedding follows \<^verbatim>\<open>src/core/Event.js\<close> (the mixin \<^verbatim>\<open>Z.Eventable\<close>),
  \<^verbatim>\<open>Z.MapTool\<close> and \<^verbatim>\<open>Z.ui.UIComponent\<close>. JavaScript objects are identified by a
  reference (a natural number); reference equality \<^verbatim>\<open>===\<close> is equality of references.
  A source name that starts with an underscore is written with the prefix \<open>u_\<close>
  (\<^verbatim>\<open>_fire\<close> is \<open>u_fire\<close>, \<^verbatim>\<open>_eventMap\<close> is \<open>u_eventMap\<close>), and the subscriber field
  \<^verbatim>\<open>context\<close> is written \<open>ctx\<close>.
\<close>

type_synonym ref = nat

datatype val = Str string | Ref ref | Num int | Bool bool

text \<open>JavaScript truthiness of a property value.\<close>

fun truthy :: "val \<Rightarrow> bool" where
  "truthy (Str s) = (s \<noteq> [])"
| "truthy (Ref r) = True"
| "truthy (Num n) = (n \<noteq> 0)"
| "truthy (Bool b) = b"

text \<open>
  A function value is either a function of the caller, known by its identity \<open>Fn f\<close>,
  or the closure \<^verbatim>\<open>onceHandler\<close> that \<^verbatim>\<open>_wrapOnceHandler\<close> returns. The closure carries
  its identity (under which its variable \<^verbatim>\<open>called\<close> is stored in the heap) and the
  variables it captures: \<^verbatim>\<open>me\<close>, \<^verbatim>\<open>evtType\<close>, \<^verbatim>\<open>handler\<close> and \<^verbatim>\<open>context\<close>.
\<close>

datatype func = Fn nat | OnceHandler nat ref string func "ref option"

record subscriber =
  handler :: func
  ctx :: ref

type_synonym eventMap = "string \<rightharpoonup> subscriber list"

text \<open>
  The properties of the object \<^verbatim>\<open>_eventMap\<close> itself are the chains that \<^verbatim>\<open>on\<close> has
  stored in it, under the lower-cased event types. (The private \<^verbatim>\<open>_clearListeners\<close>,
  which stores \<^verbatim>\<open>null\<close> under a key, and \<^verbatim>\<open>copyEventListeners\<close> are not embedded.)
\<close>

record emitter =
  u_eventMap :: "eventMap option"
  u_eventParent :: "ref option"

text \<open>The fields of a \<^verbatim>\<open>Z.MapTool\<close>: \<^verbatim>\<open>_map\<close>, \<^verbatim>\<open>_enabled\<close> and \<^verbatim>\<open>name\<close>.\<close>

record tool =
  u_map :: "ref option"
  u_enabled :: bool
  name :: string

text \<open>
  The fields of a \<^verbatim>\<open>Z.ui.UIComponent\<close>: \<^verbatim>\<open>_owner\<close>, \<^verbatim>\<open>_coordinate\<close> (a coordinate
  object), \<^verbatim>\<open>__uiDOM\<close> and \<^verbatim>\<open>options['single']\<close>.
\<close>

record ui =
  u_owner :: "ref option"
  u_coordinate :: "ref option"
  uiDOM :: "ref option"
  single :: bool

text \<open>
  The heap: every object is an emitter, a tool and a component at once, with the
  fields of each unset until they are written. \<open>slots\<close> holds the properties
  \<^verbatim>\<open>map['_tool' + name]\<close> of a map and \<open>uiCache\<close> its properties
  \<^verbatim>\<open>map['__ui_' + className]\<close>; \<open>called\<close> holds the variable \<^verbatim>\<open>called\<close> of every closure
  of \<^verbatim>\<open>_wrapOnceHandler\<close>.
\<close>

record heap =
  emitters :: "ref \<Rightarrow> emitter"
  props :: "ref \<Rightarrow> (string \<times> val) list"
  called :: "nat \<Rightarrow> bool"
  tools :: "ref \<Rightarrow> tool"
  slots :: "ref \<Rightarrow> string \<rightharpoonup> ref"
  uis :: "ref \<Rightarrow> ui"
  uiCache :: "ref \<Rightarrow> string \<rightharpoonup> ref"

section \<open>Strings\<close>

text \<open>\<^verbatim>\<open>String.prototype.toLowerCase\<close> on the ASCII letters: bit 5 of \<open>A\<close>..\<open>Z\<close> is set.\<close>

definition lowerChar :: "char \<Rightarrow> char" where
  "lowerChar c =
     (if 65 \<le> (of_char c :: nat) \<and> (of_char c :: nat) \<le> 90
      then (case c of Char b0 b1 b2 b3 b4 b5 b6 b7 \<Rightarrow> Char b0 b1 b2 b3 b4 True b6 b7)
      else c)"

definition toLowerCase :: "string \<Rightarrow> string" where
  "toLowerCase s = map lowerChar s"

text \<open>\<^verbatim>\<open>s.split(' ')\<close>: the pieces between single spaces, empty pieces included.\<close>

fun split :: "string \<Rightarrow> string list" where
  "split [] = [[]]"
| "split (c # cs) =
     (if c = CHR '' '' then [] # split cs
      else (case split cs of [] \<Rightarrow> [[c]] | t # ts \<Rightarrow> (c # t) # ts))"

section \<open>Methods that may throw\<close>

text \<open>
  A method ends by returning a value or by throwing, in the state it has reached;
  a method that never returns is the value \<open>None\<close>. The state is a heap, an event
  map or the state of a run.
\<close>

datatype error = Error string | TypeError

datatype ('s, 'a) result = Done 's 'a | Raised 's error

definition andThen :: "('s, 'a) result option \<Rightarrow> ('s \<Rightarrow> 'a \<Rightarrow> ('s, 'b) result option)
    \<Rightarrow> ('s, 'b) result option" where
  "andThen m k =
     (case m of
        None \<Rightarrow> None
      | Some (Raised st e) \<Rightarrow> Some (Raised st e)
      | Some (Done st x) \<Rightarrow> k st x)"

section \<open>Eventable: on, off, listens\<close>

definition sameSubscriber :: "func \<Rightarrow> ref \<Rightarrow> subscriber \<Rightarrow> bool" where
  "sameSubscriber h c s = (h = handler s \<and> ctx s = c)"

definition setEventMap :: "heap \<Rightarrow> ref \<Rightarrow> eventMap option \<Rightarrow> heap" where
  "setEventMap hp this m =
     hp\<lparr>emitters := (emitters hp)(this := (emitters hp this)\<lparr>u_eventMap := m\<rparr>)\<rparr>"

text \<open>
  What \<^verbatim>\<open>this._eventMap[key]\<close> finds. The event map is the plain object \<^verbatim>\<open>{}\<close> of
  line 24, so a key that is not a property of the map itself is looked up in
  \<^verbatim>\<open>Object.prototype\<close>. Every lookup of the source lower-cases its key first, and the
  members of \<^verbatim>\<open>Object.prototype\<close> whose names have no capital letter are
  \<^verbatim>\<open>constructor\<close>, the function \<^verbatim>\<open>Object\<close> (its \<^verbatim>\<open>length\<close> is 1, and it has no
  property \<^verbatim>\<open>0\<close>, \<^verbatim>\<open>handler\<close>, \<^verbatim>\<open>context\<close> or \<^verbatim>\<open>push\<close>), and \<^verbatim>\<open>__proto__\<close>, the
  object \<^verbatim>\<open>Object.prototype\<close> itself (it has no property \<^verbatim>\<open>length\<close>, \<^verbatim>\<open>handler\<close>,
  \<^verbatim>\<open>context\<close> or \<^verbatim>\<open>push\<close>). Both are truthy.
\<close>

datatype property = Undefined | Chain "subscriber list" | ObjectFunction | ObjectPrototype

definition lookupKey :: "eventMap \<Rightarrow> string \<Rightarrow> property" where
  "lookupKey m k =
     (case m k of
        Some handlerChain \<Rightarrow> Chain handlerChain
      | None \<Rightarrow>
          if k = ''constructor'' then ObjectFunction
          else if k = ''__proto__'' then ObjectPrototype
          else Undefined)"

text \<open>
  The loop of \<^verbatim>\<open>on\<close> over the event types (lines 30 to 46). The \<^verbatim>\<open>return this\<close> of
  line 39 leaves the loop and the function: the types after it are not visited.
  On the function \<^verbatim>\<open>Object\<close> the inner loop runs once and reads
  \<^verbatim>\<open>handlerChain[0].handler\<close> of the undefined \<^verbatim>\<open>handlerChain[0]\<close>; on
  \<^verbatim>\<open>Object.prototype\<close> the inner loop does not run and \<^verbatim>\<open>handlerChain.push\<close> is not a
  function. Both throw a \<^verbatim>\<open>TypeError\<close>.
\<close>

fun on_loop :: "eventMap \<Rightarrow> string list \<Rightarrow> func \<Rightarrow> ref \<Rightarrow> (eventMap, unit) result" where
  "on_loop m [] h c = Done m ()"
| "on_loop m (tok # toks) h c =
     (case lookupKey m (toLowerCase tok) of
        Undefined \<Rightarrow>
          on_loop (m(toLowerCase tok \<mapsto> [\<lparr>handler = h, ctx = c\<rparr>])) toks h c
      | Chain handlerChain \<Rightarrow>
          if list_ex (sameSubscriber h c) handlerChain then Done m ()
          else on_loop (m(toLowerCase tok \<mapsto> handlerChain @ [\<lparr>handler = h, ctx = c\<rparr>])) toks h c
      | ObjectFunction \<Rightarrow> Raised m TypeError
      | ObjectPrototype \<Rightarrow> Raised m TypeError)"

text \<open>
  \<^verbatim>\<open>on(eventsOn, handler, context)\<close> with a string \<^verbatim>\<open>eventsOn\<close>. A missing handler or
  context is \<open>None\<close>. The function returns \<^verbatim>\<open>this\<close>; the model returns the heap, and
  the heap reached when the call throws.
\<close>

definition on :: "heap \<Rightarrow> ref \<Rightarrow> string \<Rightarrow> func option \<Rightarrow> ref option \<Rightarrow> (heap, unit) result" where
  "on hp this eventsOn hdl context =
     (case hdl of
        None \<Rightarrow> Done hp ()
      | Some h \<Rightarrow>
          if eventsOn = [] then Done hp ()
          else
            (case on_loop (case u_eventMap (emitters hp this) of None \<Rightarrow> Map.empty | Some m \<Rightarrow> m)
                    (split eventsOn) h (case context of None \<Rightarrow> this | Some c \<Rightarrow> c) of
               Done m u \<Rightarrow> Done (setEventMap hp this (Some m)) ()
             | Raised m e \<Rightarrow> Raised (setEventMap hp this (Some m)) e))"

text \<open>
  The inner loop of \<^verbatim>\<open>off\<close> (lines 117 to 121): it scans the chain from its last index
  down to 0 and splices every match out.
\<close>

fun off_scan :: "nat \<Rightarrow> subscriber list \<Rightarrow> func \<Rightarrow> ref \<Rightarrow> subscriber list" where
  "off_scan 0 ch h c = ch"
| "off_scan (Suc i) ch h c =
     off_scan i (if sameSubscriber h c (ch ! i) then take i ch @ drop (Suc i) ch else ch) h c"

text \<open>
  The loop of \<^verbatim>\<open>off\<close> over the event types (lines 113 to 122). The \<^verbatim>\<open>return this\<close> of
  line 116 leaves the loop and the function. On the function \<^verbatim>\<open>Object\<close> the scan
  starts at the index 0 and reads \<^verbatim>\<open>handlerChain[0].handler\<close>, which throws; on
  \<^verbatim>\<open>Object.prototype\<close> the index \<^verbatim>\<open>handlerChain.length - 1\<close> is not a number, the scan
  does not run and the loop goes on to the next type.
\<close>

fun off_loop :: "eventMap \<Rightarrow> string list \<Rightarrow> func \<Rightarrow> ref \<Rightarrow> (eventMap, unit) result" where
  "off_loop m [] h c = Done m ()"
| "off_loop m (tok # toks) h c =
     (case lookupKey m (toLowerCase tok) of
        Undefined \<Rightarrow> Done m ()
      | Chain handlerChain \<Rightarrow>
          off_loop (m(toLowerCase tok \<mapsto> off_scan (length handlerChain) handlerChain h c)) toks h c
      | ObjectFunction \<Rightarrow> Raised m TypeError
      | ObjectPrototype \<Rightarrow> off_loop m toks h c)"

definition off :: "heap \<Rightarrow> ref \<Rightarrow> string \<Rightarrow> func option \<Rightarrow> ref option \<Rightarrow> (heap, unit) result" where
  "off hp this eventsOff hdl context =
     (case hdl of
        None \<Rightarrow> Done hp ()
      | Some h \<Rightarrow>
          (case u_eventMap (emitters hp this) of
             None \<Rightarrow> Done hp ()
           | Some m \<Rightarrow>
               if eventsOff = [] then Done hp ()
               else
                 (case off_loop m (split eventsOff) h (case context of None \<Rightarrow> this | Some c \<Rightarrow> c) of
                    Done m1 u \<Rightarrow> Done (setEventMap hp this (Some m1)) ()
                  | Raised m1 e \<Rightarrow> Raised (setEventMap hp this (Some m1)) e)))"

text \<open>
  \<^verbatim>\<open>_switch(to, eventKeys, context)\<close> for \<^verbatim>\<open>to = 'on'\<close> and \<^verbatim>\<open>to = 'off'\<close>: the object
  \<^verbatim>\<open>eventKeys\<close> is the list of its own properties, in their order. A call that throws
  ends the loop.
\<close>

fun u_switch_on :: "heap \<Rightarrow> ref \<Rightarrow> (string \<times> func option) list \<Rightarrow> ref option
    \<Rightarrow> (heap, unit) result" where
  "u_switch_on hp this [] context = Done hp ()"
| "u_switch_on hp this ((p, h) # eventKeys) context =
     (case on hp this p h context of
        Done hp1 u \<Rightarrow> u_switch_on hp1 this eventKeys context
      | Raised hp1 e \<Rightarrow> Raised hp1 e)"

fun u_switch_off :: "heap \<Rightarrow> ref \<Rightarrow> (string \<times> func option) list \<Rightarrow> ref option
    \<Rightarrow> (heap, unit) result" where
  "u_switch_off hp this [] context = Done hp ()"
| "u_switch_off hp this ((p, h) # eventKeys) context =
     (case off hp this p h context of
        Done hp1 u \<Rightarrow> u_switch_off hp1 this eventKeys context
      | Raised hp1 e \<Rightarrow> Raised hp1 e)"

text \<open>
  \<^verbatim>\<open>on\<close> and \<^verbatim>\<open>off\<close> with an object of handlers as the first argument: the second
  argument (the parameter \<^verbatim>\<open>handler\<close>) is then the context, and the call does nothing
  when it is missing.
\<close>

definition on_keys :: "heap \<Rightarrow> ref \<Rightarrow> (string \<times> func option) list \<Rightarrow> ref option
    \<Rightarrow> (heap, unit) result" where
  "on_keys hp this eventsOn hdl =
     (case hdl of None \<Rightarrow> Done hp () | Some c \<Rightarrow> u_switch_on hp this eventsOn (Some c))"

definition off_keys :: "heap \<Rightarrow> ref \<Rightarrow> (string \<times> func option) list \<Rightarrow> ref option
    \<Rightarrow> (heap, unit) result" where
  "off_keys hp this eventsOff hdl =
     (case hdl of
        None \<Rightarrow> Done hp ()
      | Some c \<Rightarrow>
          (case u_eventMap (emitters hp this) of
             None \<Rightarrow> Done hp ()
           | Some m \<Rightarrow> u_switch_off hp this eventsOff (Some c)))"




text \<open>
  The chain that an emitter holds for an event type: the property of the event map
  itself under the lower-cased type.
\<close>

definition chainOf :: "heap \<Rightarrow> ref \<Rightarrow> string \<Rightarrow> subscriber list option" where
  "chainOf hp this eventType =
     (case u_eventMap (emitters hp this) of
        None \<Rightarrow> None
      | Some m \<Rightarrow> m (toLowerCase eventType))"

section \<open>Eventable: once, fire\<close>

text \<open>
  What a run leaves behind for inspection: \<open>Dispatched s passed data\<close> records that the
  loop of \<^verbatim>\<open>_fire\<close> called the handler of the subscriber \<open>s\<close> with the new object
  \<open>passed\<close>, whose properties were \<open>data\<close> at the call; \<open>Ran f this arg\<close> records that
  the body of the caller's function \<open>f\<close> ran; \<open>StopPropagation e\<close> records the call
  \<^verbatim>\<open>Z.DomUtil.stopPropagation(e)\<close>.
\<close>

datatype event =
    Dispatched subscriber ref "(string \<times> val) list"
  | Ran nat ref ref
  | StopPropagation val

text \<open>
  The state of a run: the heap that handlers read and write, the trace, and the next
  reference that an allocation (\<^verbatim>\<open>{}\<close>, a closure) returns.
\<close>

record state =
  heapOf :: heap
  trace :: "event list"
  nextRef :: nat

text \<open>A result on the heap, as a result on the state of the run.\<close>

definition withHeap :: "state \<Rightarrow> (heap, 'a) result \<Rightarrow> (state, 'a) result" where
  "withHeap st r =
     (case r of
        Done hp x \<Rightarrow> Done (st\<lparr>heapOf := hp\<rparr>) x
      | Raised hp e \<Rightarrow> Raised (st\<lparr>heapOf := hp\<rparr>) e)"

text \<open>
  The bodies of the caller's functions are a parameter: \<open>env f this arg hp\<close> is the heap
  after the body of \<open>f\<close> ran with \<^verbatim>\<open>this\<close> and its argument on the heap \<open>hp\<close>, and
  whether it returned exactly \<^verbatim>\<open>false\<close>.
\<close>

type_synonym env = "nat \<Rightarrow> ref \<Rightarrow> ref \<Rightarrow> heap \<Rightarrow> heap \<times> bool"

definition setProp :: "heap \<Rightarrow> ref \<Rightarrow> string \<Rightarrow> val \<Rightarrow> heap" where
  "setProp hp r k v = hp\<lparr>props := (props hp)(r := AList.update k v (props hp r))\<rparr>"

text \<open>A new object with the given properties: \<^verbatim>\<open>{}\<close> and \<^verbatim>\<open>Z.Util.extend({}, src)\<close>.\<close>

definition newObject :: "state \<Rightarrow> (string \<times> val) list \<Rightarrow> ref \<times> state" where
  "newObject st ps =
     (nextRef st,
      st\<lparr>heapOf := (heapOf st)\<lparr>props := (props (heapOf st))(nextRef st := ps)\<rparr>,
         nextRef := Suc (nextRef st)\<rparr>)"

text \<open>
  \<^verbatim>\<open>_wrapOnceHandler(evtType, handler, context)\<close>: a new closure whose variable
  \<^verbatim>\<open>called\<close> is \<^verbatim>\<open>false\<close>.
\<close>

definition u_wrapOnceHandler :: "state \<Rightarrow> ref \<Rightarrow> string \<Rightarrow> func \<Rightarrow> ref option \<Rightarrow> func \<times> state" where
  "u_wrapOnceHandler st this evtType h context =
     (OnceHandler (nextRef st) this evtType h context,
      st\<lparr>heapOf := (heapOf st)\<lparr>called := (called (heapOf st))(nextRef st := False)\<rparr>,
         nextRef := Suc (nextRef st)\<rparr>)"



text \<open>
  \<^verbatim>\<open>once\<close> with an object of handlers (lines 62 to 68): every property is wrapped, then
  \<^verbatim>\<open>_switch('on', once)\<close> registers the closures with no context.
\<close>

fun once_wrap :: "state \<Rightarrow> ref \<Rightarrow> (string \<times> func) list \<Rightarrow> ref option
    \<Rightarrow> (string \<times> func option) list \<times> state" where
  "once_wrap st this [] context = ([], st)"
| "once_wrap st this ((p, h) # eventTypes) context =
     (case u_wrapOnceHandler st this p h context of
        (w, st1) \<Rightarrow>
          (case once_wrap st1 this eventTypes context of
             (ws, st2) \<Rightarrow> ((p, Some w) # ws, st2)))"

definition once_keys :: "state \<Rightarrow> ref \<Rightarrow> (string \<times> func) list \<Rightarrow> ref option
    \<Rightarrow> (state, unit) result" where
  "once_keys st this eventTypes context =
     (case once_wrap st this eventTypes context of
        (ws, st1) \<Rightarrow> withHeap st1 (u_switch_on (heapOf st1) this ws None))"

text \<open>
  Calling a function value with \<^verbatim>\<open>this\<close> and one argument. For the closure of
  \<^verbatim>\<open>_wrapOnceHandler\<close> this is the body of \<^verbatim>\<open>onceHandler\<close> (lines 80 to 91), which
  returns \<^verbatim>\<open>undefined\<close>, or throws what the wrapped handler or \<^verbatim>\<open>me.off\<close> throws.
\<close>

fun call :: "env \<Rightarrow> func \<Rightarrow> ref \<Rightarrow> ref \<Rightarrow> state \<Rightarrow> (state, bool) result" where
  "call env (Fn f) this arg st =
     (case env f this arg (heapOf st) of
        (hp, r) \<Rightarrow> Done (st\<lparr>heapOf := hp, trace := trace st @ [Ran f this arg]\<rparr>) r)"
| "call env (OnceHandler cid me evtType h context) this arg st =
     (if called (heapOf st) cid then Done st False
      else
        (case call env h (case context of None \<Rightarrow> this | Some c \<Rightarrow> c) arg
                (st\<lparr>heapOf := (heapOf st)\<lparr>called := (called (heapOf st))(cid := True)\<rparr>\<rparr>) of
           Raised st2 e \<Rightarrow> Raised st2 e
         | Done st2 r \<Rightarrow>
             (case withHeap st2 (off (heapOf st2) me evtType
                                   (Some (OnceHandler cid me evtType h context)) (Some this)) of
                Raised st3 e \<Rightarrow> Raised st3 e
              | Done st3 u \<Rightarrow> Done st3 False)))"

text \<open>
  Lines 239 to 243 of \<^verbatim>\<open>_fire\<close>: a handler that returned \<^verbatim>\<open>false\<close> stops the
  propagation of \<^verbatim>\<open>param['domEvent']\<close>, when the parameter has one.
\<close>

definition stopPropagation :: "bool \<Rightarrow> ref \<Rightarrow> state \<Rightarrow> state" where
  "stopPropagation bubbleFalse param st =
     (if bubbleFalse
      then (case map_of (props (heapOf st) param) ''domEvent'' of
              None \<Rightarrow> st
            | Some e \<Rightarrow> if truthy e then st\<lparr>trace := trace st @ [StopPropagation e]\<rparr> else st)
      else st)"

text \<open>
  One round of the loop of \<^verbatim>\<open>_fire\<close> (lines 229 to 243): the parameter is copied into
  a new object \<^verbatim>\<open>passed\<close> and the handler is called with its context. The stored
  context of a subscriber is an object, so the branch of line 236 is never taken.
  A handler that throws ends the round and the loop.
\<close>

definition dispatch_step :: "env \<Rightarrow> subscriber \<Rightarrow> ref \<Rightarrow> state \<Rightarrow> (state, unit) result" where
  "dispatch_step env s param st =
     (case newObject st (props (heapOf st) param) of
        (passed, st1) \<Rightarrow>
          (case call env (handler s) (ctx s) passed
                  (st1\<lparr>trace := trace st1 @ [Dispatched s passed (props (heapOf st1) passed)]\<rparr>) of
             Raised st2 e \<Rightarrow> Raised st2 e
           | Done st2 bubbleFalse \<Rightarrow> Done (stopPropagation bubbleFalse param st2) ()))"

text \<open>
  The loop of \<^verbatim>\<open>_fire\<close> over \<^verbatim>\<open>queue\<close>, the copy of the chain (line 226). A chain
  holds subscriber objects only, so the \<^verbatim>\<open>continue\<close> of line 229 is never taken.
\<close>

fun dispatch :: "env \<Rightarrow> subscriber list \<Rightarrow> ref \<Rightarrow> state \<Rightarrow> (state, unit) result" where
  "dispatch env [] param st = Done st ()"
| "dispatch env (s # queue) param st =
     (case dispatch_step env s param st of
        Raised st1 e \<Rightarrow> Raised st1 e
      | Done st1 u \<Rightarrow> dispatch env queue param st1)"

text \<open>
  Lines 220 to 224 of \<^verbatim>\<open>_fire\<close>: a missing parameter (\<open>None\<close>) becomes a new object,
  and the type and the emitter are written onto the parameter.
\<close>

definition stamp :: "state \<Rightarrow> ref \<Rightarrow> string \<Rightarrow> ref option \<Rightarrow> ref \<times> state" where
  "stamp st this eventType param =
     (case (case param of None \<Rightarrow> newObject st [] | Some p \<Rightarrow> (p, st)) of
        (p, st1) \<Rightarrow>
          (p, st1\<lparr>heapOf := setProp (setProp (heapOf st1) p ''type'' (Str eventType))
                                p ''target'' (Ref this)\<rparr>))"

text \<open>
  The loop of \<^verbatim>\<open>_fire\<close> when the lookup found a member of \<^verbatim>\<open>Object.prototype\<close>:
  \<^verbatim>\<open>queue\<close> is the array of that one value, which is truthy and has no \<^verbatim>\<open>context\<close>, so
  the parameter is copied (line 232) and line 236 calls its \<^verbatim>\<open>handler\<close>, which is
  undefined.
\<close>

definition dispatch_inherited :: "ref \<Rightarrow> state \<Rightarrow> (state, unit) result" where
  "dispatch_inherited param st =
     (case newObject st (props (heapOf st) param) of
        (passed, st1) \<Rightarrow> Raised st1 TypeError)"

text \<open>
  \<^verbatim>\<open>_fire(eventType, param)\<close>. The result is the state and the returned object,
  \<^verbatim>\<open>this\<close>, or the state at the throw.
\<close>

definition u_fire :: "env \<Rightarrow> state \<Rightarrow> ref \<Rightarrow> string \<Rightarrow> ref option \<Rightarrow> (state, ref) result" where
  "u_fire env st this eventType param =
     (case u_eventMap (emitters (heapOf st) this) of
        None \<Rightarrow> Done st this
      | Some m \<Rightarrow>
          (case lookupKey m (toLowerCase eventType) of
             Undefined \<Rightarrow> Done st this
           | Chain handlerChain \<Rightarrow>
               (case stamp st this eventType param of
                  (p, st1) \<Rightarrow>
                    (case dispatch env handlerChain p st1 of
                       Raised st2 e \<Rightarrow> Raised st2 e
                     | Done st2 u \<Rightarrow> Done st2 this))
           | ObjectFunction \<Rightarrow>
               (case stamp st this eventType param of
                  (p, st1) \<Rightarrow>
                    (case dispatch_inherited p st1 of
                       Raised st2 e \<Rightarrow> Raised st2 e
                     | Done st2 u \<Rightarrow> Done st2 this))
           | ObjectPrototype \<Rightarrow>
               (case stamp st this eventType param of
                  (p, st1) \<Rightarrow>
                    (case dispatch_inherited p st1 of
                       Raised st2 e \<Rightarrow> Raised st2 e
                     | Done st2 u \<Rightarrow> Done st2 this))))"

text \<open>
  \<^verbatim>\<open>fire\<close>: with a parent, the call goes to the parent's \<^verbatim>\<open>fire\<close>. A cycle of parents
  never returns, which is the value \<open>None\<close>.
\<close>

partial_function (option) fire :: "env \<Rightarrow> state \<Rightarrow> ref \<Rightarrow> string \<Rightarrow> ref option
    \<Rightarrow> (state, ref) result option" where
  "fire env st this eventType param =
     (case u_eventParent (emitters (heapOf st) this) of
        Some parent \<Rightarrow> fire env st parent eventType param
      | None \<Rightarrow> Some (u_fire env st this eventType param))"

section \<open>MapTool\<close>

text \<open>
  What a concrete tool class provides: the optional methods \<^verbatim>\<open>onAdd\<close>, \<^verbatim>\<open>onEnable\<close> and
  \<^verbatim>\<open>onDisable\<close> (a missing one is \<open>None\<close>), whose bodies are any change of the heap, and
  the required \<^verbatim>\<open>getEvents\<close>, which returns an object of handlers or nothing.
\<close>

record toolHooks =
  onAdd :: "(ref \<Rightarrow> heap \<Rightarrow> heap) option"
  onEnable :: "(ref \<Rightarrow> heap \<Rightarrow> heap) option"
  onDisable :: "(ref \<Rightarrow> heap \<Rightarrow> heap) option"
  getEvents :: "ref \<Rightarrow> heap \<Rightarrow> (string \<times> func option) list option"

text \<open>\<^verbatim>\<open>if (this.onAdd) { this.onAdd(); }\<close> and its like.\<close>

definition runHook :: "(ref \<Rightarrow> heap \<Rightarrow> heap) option \<Rightarrow> ref \<Rightarrow> state \<Rightarrow> state" where
  "runHook h this st = (case h of None \<Rightarrow> st | Some g \<Rightarrow> st\<lparr>heapOf := g this (heapOf st)\<rparr>)"

definition setTool :: "state \<Rightarrow> ref \<Rightarrow> tool \<Rightarrow> state" where
  "setTool st this t = st\<lparr>heapOf := (heapOf st)\<lparr>tools := (tools (heapOf st))(this := t)\<rparr>\<rparr>"

definition getMap :: "heap \<Rightarrow> ref \<Rightarrow> ref option" where
  "getMap hp this = u_map (tools hp this)"

definition isEnabled :: "heap \<Rightarrow> ref \<Rightarrow> bool" where
  "isEnabled hp this = (if \<not> u_enabled (tools hp this) then False else True)"

text \<open>\<^verbatim>\<open>_fireEvent(eventName, param)\<close>: a missing parameter becomes a new object.\<close>

definition u_fireEvent :: "env \<Rightarrow> state \<Rightarrow> ref \<Rightarrow> string \<Rightarrow> ref option
    \<Rightarrow> (state, unit) result option" where
  "u_fireEvent env st this eventName param =
     (case (case param of None \<Rightarrow> newObject st [] | Some p \<Rightarrow> (p, st)) of
        (p, st1) \<Rightarrow>
          andThen (fire env st1 this eventName (Some p)) (\<lambda>st2 r. Some (Done st2 ())))"

text \<open>
  \<^verbatim>\<open>_switchEvents(to)\<close>: \<^verbatim>\<open>this._map[to](events, this)\<close> is \<^verbatim>\<open>on\<close> or \<^verbatim>\<open>off\<close> of the map
  with an object of handlers and the tool as context. Without a map the property
  access throws.
\<close>

definition u_switchEvents :: "(ref \<Rightarrow> toolHooks) \<Rightarrow> state \<Rightarrow> ref \<Rightarrow> string \<Rightarrow> (state, unit) result" where
  "u_switchEvents hooks st this to =
     (case getEvents (hooks this) this (heapOf st) of
        None \<Rightarrow> Done st ()
      | Some events \<Rightarrow>
          (case u_map (tools (heapOf st) this) of
             None \<Rightarrow> Raised st TypeError
           | Some m \<Rightarrow>
               if to = ''on'' then withHeap st (on_keys (heapOf st) m events (Some this))
               else if to = ''off''
               then withHeap st (off_keys (heapOf st) m events (Some this))
               else Raised st TypeError))"

definition u_registerEvents :: "(ref \<Rightarrow> toolHooks) \<Rightarrow> state \<Rightarrow> ref \<Rightarrow> (state, unit) result" where
  "u_registerEvents hooks st this = u_switchEvents hooks st this ''on''"

definition enable :: "(ref \<Rightarrow> toolHooks) \<Rightarrow> env \<Rightarrow> state \<Rightarrow> ref \<Rightarrow> (state, ref) result option" where
  "enable hooks env st this =
     (case u_map (tools (heapOf st) this) of
        None \<Rightarrow> Some (Done st this)
      | Some m \<Rightarrow>
          if u_enabled (tools (heapOf st) this) then Some (Done st this)
          else
            andThen (Some (u_switchEvents hooks
                       (setTool st this ((tools (heapOf st) this)\<lparr>u_enabled := True\<rparr>)) this ''off''))
              (\<lambda>st1 u. andThen (Some (u_registerEvents hooks st1 this))
                (\<lambda>st2 u. andThen
                    (u_fireEvent env (runHook (onEnable (hooks this)) this st2) this ''enable'' None)
                  (\<lambda>st3 u. Some (Done st3 this)))))"

definition disable :: "(ref \<Rightarrow> toolHooks) \<Rightarrow> env \<Rightarrow> state \<Rightarrow> ref \<Rightarrow> (state, ref) result option" where
  "disable hooks env st this =
     (if \<not> u_enabled (tools (heapOf st) this) \<or> u_map (tools (heapOf st) this) = None
      then Some (Done st this)
      else
        andThen (Some (u_switchEvents hooks
                   (setTool st this ((tools (heapOf st) this)\<lparr>u_enabled := False\<rparr>)) this ''off''))
          (\<lambda>st1 u. andThen
              (u_fireEvent env (runHook (onDisable (hooks this)) this st1) this ''disable'' None)
            (\<lambda>st2 u. Some (Done st2 this))))"

text \<open>
  \<^verbatim>\<open>addTo(map)\<close>; the parameter \<^verbatim>\<open>map\<close> is written \<open>mapArg\<close>, and a missing one is
  \<open>None\<close>. The key \<^verbatim>\<open>'_tool' + this.name\<close> is computed once, before the tool in the
  slot is disabled.
\<close>

definition addTo :: "(ref \<Rightarrow> toolHooks) \<Rightarrow> env \<Rightarrow> state \<Rightarrow> ref \<Rightarrow> ref option \<Rightarrow> (state, ref) result option" where
  "addTo hooks env st this mapArg =
     (case mapArg of
        None \<Rightarrow> Some (Done st this)
      | Some m \<Rightarrow>
          (let st0 = setTool st this ((tools (heapOf st) this)\<lparr>u_map := Some m\<rparr>);
               key = ''_tool'' @ name (tools (heapOf st0) this)
           in andThen
                (case slots (heapOf st0) m key of
                   None \<Rightarrow> Some (Done st0 this)
                 | Some occupant \<Rightarrow> disable hooks env st0 occupant)
                (\<lambda>st1 u. andThen (enable hooks env (runHook (onAdd (hooks this)) this st1) this)
                  (\<lambda>st2 u. andThen
                      (u_fireEvent env
                         (st2\<lparr>heapOf := (heapOf st2)\<lparr>slots := (slots (heapOf st2))
                                  (m := (slots (heapOf st2) m)(key \<mapsto> this))\<rparr>\<rparr>)
                         this ''add'' None)
                    (\<lambda>st3 u. Some (Done st3 this))))))"

section \<open>UIComponent\<close>

text \<open>
  What \<^verbatim>\<open>show\<close> takes from outside of the class: \<open>isMap\<close> is the test
  \<^verbatim>\<open>instanceof Z.Map\<close> and \<open>ownerMap\<close> the method \<^verbatim>\<open>getMap\<close> of an owner that is not a map;
  \<open>uiGetEvents\<close>, \<open>onDomRemove\<close> and \<open>buildOn\<close> are the methods of the concrete class
  (the first two optional), \<open>onZooming\<close> and \<open>onZoomEnd\<close> the function values of the two
  methods of that name, \<open>className\<close> the result of \<^verbatim>\<open>_getClassName\<close>;
  \<open>removeDomNode\<close> is \<^verbatim>\<open>Z.DomUtil.removeDomNode\<close>, \<open>measureSize\<close> is what
  \<^verbatim>\<open>_measureSize\<close> does to the document and to \<^verbatim>\<open>_size\<close>, and \<open>place\<close> is the
  positioning of the element (lines 137 to 153: \<^verbatim>\<open>getPosition\<close>, the style of the
  element, \<^verbatim>\<open>appendChild\<close>, \<^verbatim>\<open>Z.DomUtil.on\<close> and \<^verbatim>\<open>_autoPan\<close>), which works on the
  document and on \<^verbatim>\<open>Z.Map\<close>.
\<close>

record uiHooks =
  isMap :: "ref \<Rightarrow> bool"
  ownerMap :: "heap \<Rightarrow> ref \<Rightarrow> ref option"
  uiGetEvents :: "(ref \<Rightarrow> heap \<Rightarrow> (string \<times> func option) list) option"
  onZooming :: func
  onZoomEnd :: func
  onDomRemove :: "(ref \<Rightarrow> heap \<Rightarrow> heap) option"
  buildOn :: "ref \<Rightarrow> ref \<Rightarrow> heap \<Rightarrow> heap \<times> ref option"
  className :: "ref \<Rightarrow> string"
  removeDomNode :: "ref \<Rightarrow> heap \<Rightarrow> heap"
  measureSize :: "ref \<Rightarrow> ref \<Rightarrow> heap \<Rightarrow> heap"
  place :: "ref \<Rightarrow> ref \<Rightarrow> ref \<Rightarrow> heap \<Rightarrow> heap"

definition setUi :: "state \<Rightarrow> ref \<Rightarrow> ui \<Rightarrow> state" where
  "setUi st this u = st\<lparr>heapOf := (heapOf st)\<lparr>uis := (uis (heapOf st))(this := u)\<rparr>\<rparr>"

text \<open>
  \<^verbatim>\<open>getMap\<close> of a component: \<^verbatim>\<open>this._owner.getMap()\<close> throws when there is no owner.
\<close>

definition ui_getMap :: "uiHooks \<Rightarrow> heap \<Rightarrow> ref \<Rightarrow> error + ref option" where
  "ui_getMap k hp this =
     (case u_owner (uis hp this) of
        None \<Rightarrow> Inl TypeError
      | Some owner \<Rightarrow> Inr (if isMap k owner then Some owner else ownerMap k hp owner))"

text \<open>
  \<^verbatim>\<open>_switchEvents(to)\<close> of a component: the two default handlers, extended by those of
  \<^verbatim>\<open>getEvents\<close>, are registered on the map (or removed from it) one by one.
\<close>

definition ui_switchEvents :: "uiHooks \<Rightarrow> state \<Rightarrow> ref \<Rightarrow> string \<Rightarrow> (state, unit) result" where
  "ui_switchEvents k st this to =
     (let defaults = [(''zooming'', Some (onZooming k)), (''zoomend'', Some (onZoomEnd k))];
          events = (case uiGetEvents k of
                      None \<Rightarrow> defaults
                    | Some g \<Rightarrow> fold (\<lambda>(p, h). AList.update p h) (g this (heapOf st)) defaults)
      in case ui_getMap k (heapOf st) this of
           Inl e \<Rightarrow> Raised st e
         | Inr None \<Rightarrow> Raised st TypeError
         | Inr (Some m) \<Rightarrow>
             if to = ''on'' then withHeap st (u_switch_on (heapOf st) m events (Some this))
             else if to = ''off''
             then withHeap st (u_switch_off (heapOf st) m events (Some this))
             else Raised st TypeError)"

text \<open>\<^verbatim>\<open>_removePrevDOM\<close>.\<close>

definition u_removePrevDOM :: "uiHooks \<Rightarrow> state \<Rightarrow> ref \<Rightarrow> (state, unit) result" where
  "u_removePrevDOM k st0 this =
     (let st = runHook (onDomRemove k) this st0
      in if single (uis (heapOf st) this)
         then (case ui_getMap k (heapOf st) this of
                 Inl e \<Rightarrow> Raised st e
               | Inr None \<Rightarrow> Raised st TypeError
               | Inr (Some m) \<Rightarrow>
                   (let key = ''__ui_'' @ className k this;
                        st1 = (case uiCache (heapOf st) m key of
                                 None \<Rightarrow> st
                               | Some d \<Rightarrow>
                                   st\<lparr>heapOf := (removeDomNode k d (heapOf st))
                                        \<lparr>uiCache := (uiCache (removeDomNode k d (heapOf st)))
                                           (m := (uiCache (removeDomNode k d (heapOf st)) m)
                                              (key := None))\<rparr>\<rparr>)
                    in Done (setUi st1 this ((uis (heapOf st1) this)\<lparr>uiDOM := None\<rparr>)) ()))
         else (case uiDOM (uis (heapOf st) this) of
                 None \<Rightarrow> Done st ()
               | Some d \<Rightarrow>
                   (let st1 = st\<lparr>heapOf := removeDomNode k d (heapOf st)\<rparr>
                    in Done (setUi st1 this ((uis (heapOf st1) this)\<lparr>uiDOM := None\<rparr>)) ())))"

text \<open>
  Lines 110 to 155 of \<^verbatim>\<open>show\<close>, after the coordinate is known and \<open>showstart\<close> fired;
  the variable \<^verbatim>\<open>dom\<close> is written \<open>el\<close>.
\<close>

definition show_element :: "uiHooks \<Rightarrow> env \<Rightarrow> state \<Rightarrow> ref \<Rightarrow> ref \<Rightarrow> (state, ref) result option" where
  "show_element k env st this coordinate =
     (case ui_getMap k (heapOf st) this of
        Inl e \<Rightarrow> Some (Raised st e)
      | Inr None \<Rightarrow> Some (Raised st TypeError)
      | Inr (Some m) \<Rightarrow>
          andThen
            (Some (case uiDOM (uis (heapOf st) this) of
                     None \<Rightarrow> ui_switchEvents k st this ''on''
                   | Some d \<Rightarrow> Done st ()))
            (\<lambda>st1 u. andThen
                (Some (u_removePrevDOM k
                   (setUi st1 this ((uis (heapOf st1) this)\<lparr>u_coordinate := Some coordinate\<rparr>)) this))
              (\<lambda>st2 u.
                 (case buildOn k this m (heapOf st2) of
                    (hp3, el) \<Rightarrow>
                      (let st3 = setUi (st2\<lparr>heapOf := hp3\<rparr>) this ((uis hp3 this)\<lparr>uiDOM := el\<rparr>)
                       in case el of
                            None \<Rightarrow> andThen (fire env st3 this ''showend'' None)
                                      (\<lambda>st4 r. Some (Done st4 this))
                          | Some d \<Rightarrow>
                              (let hp4 = measureSize k this d (heapOf st3);
                                   hp5 = (if single (uis hp4 this)
                                          then hp4\<lparr>uiCache := (uiCache hp4)
                                                 (m := (uiCache hp4 m)(''__ui_'' @ className k this \<mapsto> d))\<rparr>
                                          else hp4);
                                   st6 = st3\<lparr>heapOf := place k this m d hp5\<rparr>
                               in andThen (fire env st6 this ''showend'' None)
                                    (\<lambda>st7 r. Some (Done st7 this))))))))"

text \<open>
  \<^verbatim>\<open>show(coordinate)\<close>: a missing coordinate is \<open>None\<close>. The \<^verbatim>\<open>throw\<close> of line 98 ends
  the call in the state it started in.
\<close>

definition ui_show :: "uiHooks \<Rightarrow> env \<Rightarrow> state \<Rightarrow> ref \<Rightarrow> ref option \<Rightarrow> (state, ref) result option" where
  "ui_show k env st this coordinate =
     (case (case coordinate of
              None \<Rightarrow> u_coordinate (uis (heapOf st) this)
            | Some c \<Rightarrow> Some c) of
        None \<Rightarrow> Some (Raised st (Error ''UI's show coordinate is invalid''))
      | Some c \<Rightarrow>
          andThen (fire env st this ''showstart'' None)
            (\<lambda>st1 r. show_element k env st1 this c))"

text \<open>\<^verbatim>\<open>addTo(owner)\<close> of a component.\<close>

definition ui_addTo :: "env \<Rightarrow> state \<Rightarrow> ref \<Rightarrow> ref \<Rightarrow> (state, ref) result option" where
  "ui_addTo env st this owner =
     andThen (fire env (setUi st this ((uis (heapOf st) this)\<lparr>u_owner := Some owner\<rparr>))
              this ''add'' None)
       (\<lambda>st1 r. Some (Done st1 this))"

section \<open>What is observed of a run\<close>

text \<open>The state in which a method ended, and whether it returned.\<close>

fun stateOf :: "('s, 'a) result \<Rightarrow> 's" where
  "stateOf (Done s x) = s"
| "stateOf (Raised s e) = s"

fun isDone :: "('s, 'a) result \<Rightarrow> bool" where
  "isDone (Done s x) = True"
| "isDone (Raised s e) = False"

text \<open>The subscribers that the loop of \<^verbatim>\<open>_fire\<close> called, and the calls of a function.\<close>

fun dispatchedOf :: "event list \<Rightarrow> subscriber list" where
  "dispatchedOf [] = []"
| "dispatchedOf (Dispatched s passed d # es) = s # dispatchedOf es"
| "dispatchedOf (e # es) = dispatchedOf es"

fun ranCount :: "nat \<Rightarrow> event list \<Rightarrow> nat" where
  "ranCount f [] = 0"
| "ranCount f (Ran g this arg # es) = (if f = g then Suc (ranCount f es) else ranCount f es)"
| "ranCount f (e # es) = ranCount f es"




text \<open>The chain of a type as a list: the empty list when the type has no chain.\<close>

definition chainList :: "heap \<Rightarrow> ref \<Rightarrow> string \<Rightarrow> subscriber list" where
  "chainList hp this eventType =
     (case chainOf hp this eventType of None \<Rightarrow> [] | Some ch \<Rightarrow> ch)"



text \<open>
  The emitter that dispatches a \<^verbatim>\<open>fire\<close> on \<open>a\<close>: the first emitter without a parent
  on the path of parents from \<open>a\<close>, when the path reaches one within \<open>n\<close> steps.
\<close>

fun dispatcher :: "nat \<Rightarrow> heap \<Rightarrow> ref \<Rightarrow> ref option" where
  "dispatcher 0 hp a = (case u_eventParent (emitters hp a) of None \<Rightarrow> Some a | Some b \<Rightarrow> None)"
| "dispatcher (Suc n) hp a =
     (case u_eventParent (emitters hp a) of None \<Rightarrow> Some a | Some b \<Rightarrow> dispatcher n hp b)"

text \<open>The parent of every emitter.\<close>

definition parents :: "heap \<Rightarrow> ref \<Rightarrow> ref option" where
  "parents hp = (\<lambda>r. u_eventParent (emitters hp r))"

text \<open>
  A change of the heap that leaves the fields of all tools, the tool slots of all maps
  and the parents of all emitters as they were.
\<close>

definition keeps :: "heap \<Rightarrow> heap \<Rightarrow> bool" where
  "keeps hp hp' = (tools hp' = tools hp \<and> slots hp' = slots hp \<and> parents hp' = parents hp)"

text \<open>
  The names under which a lookup in an event map finds a member of
  \<^verbatim>\<open>Object.prototype\<close> when the map has no property of that name itself.
\<close>

definition inherited :: "string \<Rightarrow> bool" where
  "inherited k = (k = ''constructor'' \<or> k = ''__proto__'')"

text \<open>Event types, separated by spaces, none of which is such a name.\<close>

definition plainTypes :: "string \<Rightarrow> bool" where
  "plainTypes types = list_all (\<lambda>tok. \<not> inherited (toLowerCase tok)) (split types)"


section \<open>Example handlers and states\<close>

text \<open>A heap in which no object has listeners, a parent or properties.\<close>

definition heap0 :: heap where
  "heap0 =
     \<lparr>emitters = (\<lambda>r. \<lparr>u_eventMap = None, u_eventParent = None\<rparr>),
      props = (\<lambda>r. []),
      called = (\<lambda>n. False),
      tools = (\<lambda>r. \<lparr>u_map = None, u_enabled = False, name = []\<rparr>),
      slots = (\<lambda>r. Map.empty),
      uis = (\<lambda>r. \<lparr>u_owner = None, u_coordinate = None, uiDOM = None, single = True\<rparr>),
      uiCache = (\<lambda>r. Map.empty)\<rparr>"

definition state0 :: state where
  "state0 = \<lparr>heapOf = heap0, trace = [], nextRef = 100\<rparr>"

text \<open>Functions that do nothing and return \<^verbatim>\<open>undefined\<close>.\<close>

definition envSkip :: env where
  "envSkip f this arg hp = (hp, False)"







text \<open>A tool class without optional methods that listens to \<open>click\<close>.\<close>

definition hooksC7 :: "ref \<Rightarrow> toolHooks" where
  "hooksC7 r =
     \<lparr>onAdd = None, onEnable = None, onDisable = None,
      getEvents = (\<lambda>this hp. Some [(''click'', Some (Fn 0))])\<rparr>"

text \<open>Two tools of the class \<open>Area\<close>, not attached.\<close>

definition stateC7 :: state where
  "stateC7 =
     state0\<lparr>heapOf := heap0\<lparr>tools := (tools heap0)
       (10 := \<lparr>u_map = None, u_enabled = False, name = ''Area''\<rparr>,
        11 := \<lparr>u_map = None, u_enabled = False, name = ''Area''\<rparr>)\<rparr>\<rparr>"

text \<open>
  Two tools of the class \<open>Area\<close>: the tool 10 is enabled on the map 1 and holds the
  slot.
\<close>

definition stateC7w :: state where
  "stateC7w =
     state0\<lparr>heapOf := heap0\<lparr>tools := (tools heap0)
       (10 := \<lparr>u_map = Some 1, u_enabled = True, name = ''Area''\<rparr>,
        11 := \<lparr>u_map = None, u_enabled = False, name = ''Area''\<rparr>),
       slots := (slots heap0)(1 := [''_toolArea'' \<mapsto> 10])\<rparr>\<rparr>"

text \<open>
  A component class whose \<^verbatim>\<open>buildOn\<close> yields no element; the object 1 is the map.
\<close>

definition hooksC8 :: uiHooks where
  "hooksC8 =
     \<lparr>isMap = (\<lambda>r. r = 1), ownerMap = (\<lambda>hp r. None), uiGetEvents = None,
      onZooming = Fn 7, onZoomEnd = Fn 8, onDomRemove = None,
      buildOn = (\<lambda>this m hp. (hp, None)), className = (\<lambda>r. ''InfoWindow''),
      removeDomNode = (\<lambda>d hp. hp), measureSize = (\<lambda>this d hp. hp),
      place = (\<lambda>this m d hp. hp)\<rparr>"

text \<open>
  The component 20 is owned by the map 1, was never shown, and has a listener for
  \<open>showstart\<close>.
\<close>

definition stateC8 :: state where
  "stateC8 =
     state0\<lparr>heapOf :=
       (stateOf (on heap0 20 ''showstart'' (Some (Fn 0)) None))
         \<lparr>uis := (uis heap0)
            (20 := \<lparr>u_owner = Some 1, u_coordinate = None, uiDOM = None, single = True\<rparr>)\<rparr>\<rparr>"


section \<open>Registration and removal\<close>



text \<open>
  Claim C1, at an input where the code leaves it: the emitter 1 already has the pair
  (\<open>Fn 0\<close>, emitter 1) for the type \<open>a\<close>; \<^verbatim>\<open>on('a b', f)\<close> then returns at the type \<open>a\<close>
  and registers nothing for the type \<open>b\<close>, where the claim has the pair appended.
\<close>

theorem C1_on_returns_at_first_duplicate:
  "isDone (on (stateOf (on heap0 1 ''a'' (Some (Fn 0)) None)) 1 ''a b'' (Some (Fn 0)) None)
   \<and> chainOf (stateOf (on (stateOf (on heap0 1 ''a'' (Some (Fn 0)) None)) 1 ''a b'' (Some (Fn 0)) None))
        1 ''b'' = None
   \<and> chainOf (stateOf (on heap0 1 ''b'' (Some (Fn 0)) None)) 1 ''b''
       = Some [\<lparr>handler = Fn 0, ctx = 1\<rparr>]"
  by (simp add: on_def chainOf_def heap0_def setEventMap_def toLowerCase_def lowerChar_def
      sameSubscriber_def lookupKey_def)

text \<open>
  Claim C5, at an input where the code leaves it: the emitter 1 has the pair
  (\<open>Fn 0\<close>, emitter 1) for the type \<open>b\<close> and no chain for the type \<open>a\<close>;
  \<^verbatim>\<open>off('a b', f)\<close> returns at the type \<open>a\<close> and the pair stays in the chain of \<open>b\<close>,
  while \<^verbatim>\<open>off('b', f)\<close> removes it.
\<close>

theorem C5_off_returns_at_first_unregistered:
  "isDone (off (stateOf (on heap0 1 ''b'' (Some (Fn 0)) None)) 1 ''a b'' (Some (Fn 0)) None)
   \<and> chainOf (stateOf (off (stateOf (on heap0 1 ''b'' (Some (Fn 0)) None)) 1 ''a b'' (Some (Fn 0)) None))
        1 ''b''
     = Some [\<lparr>handler = Fn 0, ctx = 1\<rparr>]
   \<and> chainOf (stateOf (off (stateOf (on heap0 1 ''b'' (Some (Fn 0)) None)) 1 ''b'' (Some (Fn 0)) None))
        1 ''b''
     = Some []"
  by (simp add: on_def off_def chainOf_def heap0_def setEventMap_def toLowerCase_def
      lowerChar_def sameSubscriber_def lookupKey_def)

section \<open>Calls that return and calls that throw\<close>

lemma stateOf_withHeap [simp]: "stateOf (withHeap st r) = st\<lparr>heapOf := stateOf r\<rparr>"
  by (cases r) (simp_all add: withHeap_def)

lemma isDone_withHeap [simp]: "isDone (withHeap st r) = isDone r"
  by (cases r) (simp_all add: withHeap_def)

lemma isDone_iff: "isDone r \<longleftrightarrow> (\<exists>x. r = Done (stateOf r) x)"
  by (cases r) simp_all

lemma not_isDone_iff: "\<not> isDone r \<longleftrightarrow> (\<exists>e. r = Raised (stateOf r) e)"
  by (cases r) simp_all

lemma lookupKey_plain:
  "\<not> inherited k \<Longrightarrow> lookupKey m k = (case m k of None \<Rightarrow> Undefined | Some ch \<Rightarrow> Chain ch)"
  by (simp add: lookupKey_def inherited_def split: option.splits)


lemma on_loop_plain:
  "list_all (\<lambda>tok. \<not> inherited (toLowerCase tok)) toks \<Longrightarrow> isDone (on_loop m toks h c)"
  by (induction toks arbitrary: m) (simp_all add: lookupKey_plain split: option.splits)


lemma on_loop_outcome:
  "isDone (on_loop m toks h c) \<or> on_loop m toks h c = Raised (stateOf (on_loop m toks h c)) TypeError"
  by (induction toks arbitrary: m) (simp_all split: property.splits)


lemma on_Some:
  "isDone (on hp a types (Some h) c)
     = (types = [] \<or> isDone (on_loop (case u_eventMap (emitters hp a) of None \<Rightarrow> Map.empty | Some m \<Rightarrow> m)
                                (split types) h (case c of None \<Rightarrow> a | Some c \<Rightarrow> c)))"
  "stateOf (on hp a types (Some h) c)
     = (if types = [] then hp
        else setEventMap hp a (Some (stateOf
               (on_loop (case u_eventMap (emitters hp a) of None \<Rightarrow> Map.empty | Some m \<Rightarrow> m)
                  (split types) h (case c of None \<Rightarrow> a | Some c \<Rightarrow> c)))))"
  by (simp_all add: on_def split: result.splits)


lemma on_plain: "plainTypes types \<Longrightarrow> isDone (on hp a types h c)"
proof (cases h)
  case None
  then show ?thesis by (simp add: on_def)
next
  case (Some f)
  assume "plainTypes types"
  then show ?thesis unfolding Some on_Some by (simp add: plainTypes_def on_loop_plain)
qed


lemma on_outcome:
  "isDone (on hp a types h c) \<or> on hp a types h c = Raised (stateOf (on hp a types h c)) TypeError"
proof (cases h)
  case None
  then show ?thesis by (simp add: on_def)
next
  case (Some f)
  show ?thesis
    using on_loop_outcome [of "case u_eventMap (emitters hp a) of None \<Rightarrow> Map.empty | Some m \<Rightarrow> m"
        "split types" f "case c of None \<Rightarrow> a | Some c \<Rightarrow> c"]
    unfolding Some by (auto simp add: on_def split: result.splits)
qed





lemma call_called_closure:
  "called (heapOf st) cid \<Longrightarrow> call env (OnceHandler cid me t h c) this arg st = Done st False"
  by simp

lemma call_Fn:
  "isDone (call env (Fn f) this arg st)"
  "stateOf (call env (Fn f) this arg st)
     = st\<lparr>heapOf := fst (env f this arg (heapOf st)), trace := trace st @ [Ran f this arg]\<rparr>"
  by (simp_all add: case_prod_beta)



section \<open>Dispatch runs over the copy of the chain\<close>










lemma fire_no_parent:
  "u_eventParent (emitters (heapOf st) this) = None \<Longrightarrow>
   fire env st this eventType param = Some (u_fire env st this eventType param)"
  by (subst fire.simps) simp




lemma dispatcher_step:
  "u_eventParent (emitters hp a) = Some b \<Longrightarrow> dispatcher n hp b = Some r \<Longrightarrow>
   dispatcher (Suc n) hp a = Some r"
  by simp






section \<open>Delegation to the parent\<close>


lemma dispatch_inherited_outcome:
  "dispatch_inherited p st = Raised (stateOf (dispatch_inherited p st)) TypeError"
  by (simp add: dispatch_inherited_def newObject_def)

















section \<open>The payload of fire\<close>













section \<open>Once: the closure in the chain\<close>









lemma chainOf_cong: "emitters hp = emitters hp' \<Longrightarrow> chainOf hp = chainOf hp'"
  by (auto simp add: chainOf_def fun_eq_iff)

lemma chainList_cong: "emitters hp = emitters hp' \<Longrightarrow> chainList hp = chainList hp'"
  by (auto simp add: chainList_def chainOf_def fun_eq_iff)





lemma ranCount_append: "ranCount f (xs @ ys) = ranCount f xs + ranCount f ys"
  by (induction f xs rule: ranCount.induct) simp_all

lemma stopPropagation_ranCount: "ranCount f (trace (stopPropagation b p st)) = ranCount f (trace st)"
  by (simp add: stopPropagation_def ranCount_append split: option.splits)









lemma chainOf_called_update [simp]: "chainOf (hp\<lparr>called := x\<rparr>) = chainOf hp"
  by (simp add: chainOf_def fun_eq_iff)

lemma chainList_called_update [simp]: "chainList (hp\<lparr>called := x\<rparr>) = chainList hp"
  by (simp add: chainList_def fun_eq_iff)




















section \<open>UIComponent: show without a coordinate\<close>

text \<open>
  Claim C8: \<^verbatim>\<open>show()\<close> without a coordinate is \<^verbatim>\<open>show(c)\<close> for the coordinate \<open>c\<close> that
  the component remembers in \<^verbatim>\<open>_coordinate\<close>; without a remembered coordinate it throws
  the error of line 98 in the state it was called in, before \<open>showstart\<close> is fired. A
  \<^verbatim>\<open>show\<close> with a coordinate fires \<open>showstart\<close> first and then shows the element.
\<close>

theorem C8_show_needs_a_coordinate:
  "(\<forall>c. u_coordinate (uis (heapOf st) this) = Some c \<longrightarrow>
        ui_show k env st this None = ui_show k env st this (Some c))
   \<and> (u_coordinate (uis (heapOf st) this) = None \<longrightarrow>
        ui_show k env st this None
          = Some (Raised st (Error ''UI's show coordinate is invalid'')))
   \<and> (\<forall>c. ui_show k env st this (Some c)
          = andThen (fire env st this ''showstart'' None)
              (\<lambda>st1 r. show_element k env st1 this c))"
  by (simp add: ui_show_def)

lemma stateC8_facts:
  "u_coordinate (uis (heapOf stateC8) 20) = None"
  "u_eventParent (emitters (heapOf stateC8) 20) = None"
  "chainOf (heapOf stateC8) 20 ''showstart'' = Some [\<lparr>handler = Fn 0, ctx = 20\<rparr>]"
  "chainOf (heapOf stateC8) 20 ''showend'' = None"
  "trace stateC8 = []"
  by (simp_all add: stateC8_def state0_def heap0_def on_def setEventMap_def chainOf_def
      toLowerCase_def lowerChar_def sameSubscriber_def lookupKey_def)

lemma stateC8_show:
  "\<exists>st1. ui_show hooksC8 envSkip stateC8 20 (Some 30) = Some (Done st1 20)
      \<and> u_coordinate (uis (heapOf st1) 20) = Some 30
      \<and> dispatchedOf (trace st1) = [\<lparr>handler = Fn 0, ctx = 20\<rparr>]"
  by (simp add: ui_show_def show_element_def andThen_def fire_no_parent stateC8_facts
      u_fire_def stateC8_def state0_def heap0_def on_def setEventMap_def Let_def
      toLowerCase_def lowerChar_def sameSubscriber_def stamp_def newObject_def setProp_def
      dispatch_step_def stopPropagation_def envSkip_def hooksC8_def ui_getMap_def
      ui_switchEvents_def u_removePrevDOM_def runHook_def setUi_def u_switch_on.simps
      lookupKey_def withHeap_def)

text \<open>
  The component 20 was never shown: \<^verbatim>\<open>show()\<close> throws and the trace stays empty.
  \<^verbatim>\<open>show(c)\<close> with the coordinate 30 calls the listener of \<open>showstart\<close> and remembers the
  coordinate, after which \<^verbatim>\<open>show()\<close> is \<^verbatim>\<open>show(c)\<close>.
\<close>

theorem C8_show_needs_a_coordinate_witness:
  "u_coordinate (uis (heapOf stateC8) 20) = None
   \<and> trace stateC8 = []
   \<and> ui_show hooksC8 envSkip stateC8 20 None
       = Some (Raised stateC8 (Error ''UI's show coordinate is invalid''))
   \<and> (\<exists>st1. ui_show hooksC8 envSkip stateC8 20 (Some 30) = Some (Done st1 20)
         \<and> dispatchedOf (trace st1) = [\<lparr>handler = Fn 0, ctx = 20\<rparr>]
         \<and> u_coordinate (uis (heapOf st1) 20) = Some 30
         \<and> ui_show hooksC8 envSkip st1 20 None = ui_show hooksC8 envSkip st1 20 (Some 30))"
proof -
  have thrown: "ui_show hooksC8 envSkip stateC8 20 None
      = Some (Raised stateC8 (Error ''UI's show coordinate is invalid''))"
    using C8_show_needs_a_coordinate [of stateC8 20 hooksC8 envSkip] stateC8_facts(1) by blast
  obtain st1 where s: "ui_show hooksC8 envSkip stateC8 20 (Some 30) = Some (Done st1 20)"
    and c: "u_coordinate (uis (heapOf st1) 20) = Some 30"
    and d: "dispatchedOf (trace st1) = [\<lparr>handler = Fn 0, ctx = 20\<rparr>]"
    using stateC8_show by blast
  have "ui_show hooksC8 envSkip st1 20 None = ui_show hooksC8 envSkip st1 20 (Some 30)"
    using C8_show_needs_a_coordinate [of st1 20 hooksC8 envSkip] c by blast
  then show ?thesis using thrown s c d stateC8_facts(1,5) by blast
qed

end
